theory Spec2Isabelle
  imports Main
begin

section \<open>Python values, errors and sequence primitives\<close>

text \<open>
  Option values are Python objects. The model covers \<open>None\<close>, integers and strings:
  on these Python's \<open>==\<close> is structural equality, so \<open>x in opt\<close> is list
  membership (booleans and floats, which compare equal to integers, are left out).
  Strings are ASCII, one \<open>char\<close> per code point.
\<close>

datatype pyval = PNone | PInt int | PStr string

text \<open>
  The shapes an argument of type \<open>Sequence[Any] | Any | None\<close> takes: a single
  value, a \<open>list\<close>, a \<open>tuple\<close>, a \<open>set\<close> (its elements in iteration order),
  and a \<open>numpy.ndarray\<close> or \<open>pandas.Series\<close> (its elements in order).
\<close>

datatype pyarg =
    Atom pyval
  | ListArg "pyval list"
  | TupleArg "pyval list"
  | SetArg "pyval list"
  | ArrayArg "pyval list"

datatype error =
    StreamlitAPIException string
  | TypeError string
  | ValueError string
  | IndexError string
  | AssertionError

text \<open>\<open>str(n)\<close> for an integer: decimal digits, with a leading minus sign.\<close>

definition digit_char :: "nat \<Rightarrow> char" where
  "digit_char d = ''0123456789'' ! (d mod 10)"

fun str_nat :: "nat \<Rightarrow> string" where
  "str_nat n = (if n < 10 then [digit_char n] else str_nat (n div 10) @ [digit_char (n mod 10)])"

declare str_nat.simps [simp del]

definition str_int :: "int \<Rightarrow> string" where
  "str_int i = (if i < 0 then ''-'' @ str_nat (nat (- i)) else str_nat (nat i))"

text \<open>\<open>str(value)\<close>, which an f-string applies to \<open>{value}\<close>.\<close>

fun py_str :: "pyval \<Rightarrow> string" where
  "py_str PNone = ''None''"
| "py_str (PInt i) = str_int i"
| "py_str (PStr s) = s"

text \<open>Truthiness of a value (\<open>if x\<close>, \<open>x and y\<close>, \<open>x or y\<close>).\<close>

fun py_truthy :: "pyval \<Rightarrow> bool" where
  "py_truthy PNone = False"
| "py_truthy (PInt i) = (i \<noteq> 0)"
| "py_truthy (PStr s) = (s \<noteq> [])"

text \<open>
  \<open>list(x)\<close> for a single value: a string is iterated character by character,
  \<open>None\<close> and integers are not iterable.
\<close>

fun py_list :: "pyval \<Rightarrow> error + pyval list" where
  "py_list PNone = Inl (TypeError (CHR 0x27 # ''NoneType' object is not iterable''))"
| "py_list (PInt i) = Inl (TypeError (CHR 0x27 # ''int' object is not iterable''))"
| "py_list (PStr s) = Inr (map (\<lambda>c. PStr [c]) s)"

text \<open>\<open>xs.index(v)\<close>: the first position holding \<open>v\<close>; \<open>ValueError\<close> when there is none.\<close>

fun py_index :: "pyval list \<Rightarrow> pyval \<Rightarrow> error + int" where
  "py_index [] v = Inl (ValueError (py_str v @ '' is not in list''))"
| "py_index (x # xs) v =
     (if x = v then Inr 0
      else case py_index xs v of Inl e \<Rightarrow> Inl e | Inr i \<Rightarrow> Inr (i + 1))"

text \<open>\<open>xs[i]\<close>: an index below zero is taken from the end; outside the list it raises.\<close>

definition py_getitem :: "'a list \<Rightarrow> int \<Rightarrow> error + 'a" where
  "py_getitem xs i =
     (if 0 \<le> i \<and> i < int (length xs) then Inr (xs ! nat i)
      else if i < 0 \<and> - int (length xs) \<le> i then Inr (xs ! nat (int (length xs) + i))
      else Inl (IndexError ''list index out of range''))"

text \<open>A list comprehension whose element expression may raise: the first error wins.\<close>

fun comprehension :: "('a \<Rightarrow> error + 'b) \<Rightarrow> 'a list \<Rightarrow> error + 'b list" where
  "comprehension f [] = Inr []"
| "comprehension f (x # xs) =
     (case f x of
        Inl e \<Rightarrow> Inl e
      | Inr y \<Rightarrow> (case comprehension f xs of Inl e \<Rightarrow> Inl e | Inr ys \<Rightarrow> Inr (y # ys)))"

section \<open>options_selector_utils.py\<close>

subsection \<open>\<open>_check_and_convert_to_indices\<close>\<close>

definition invalid_default_message :: "pyval \<Rightarrow> string" where
  "invalid_default_message v =
     ''The default value '' @ [CHR 0x27] @ py_str v @ ''' is not part of the options. ''
     @ ''Please make sure that every default values also exists in the options.''"

text \<open>The loop of lines 112-117: the first value that is not an option raises.\<close>

fun check_values :: "pyval list \<Rightarrow> pyval list \<Rightarrow> error option" where
  "check_values opt [] = None"
| "check_values opt (v # vs) =
     (if v \<notin> set opt then Some (StreamlitAPIException (invalid_default_message v))
      else check_values opt vs)"

text \<open>
  The result is \<open>Inr None\<close> where the source returns \<open>None\<close>. The inner \<open>case\<close>
  is the block of lines 96-111 that turns \<open>default_values\<close> into a list: a list is
  kept, an array or series, a tuple and a set go through \<open>list(...)\<close>, and a single
  value goes through \<open>list(...)\<close> when it is truthy and not an option, and is wrapped
  in a one-element list otherwise.
\<close>

definition check_and_convert_to_indices :: "pyval list \<Rightarrow> pyarg \<Rightarrow> error + int list option" where
  "check_and_convert_to_indices opt default_values =
     (if default_values = Atom PNone \<and> PNone \<notin> set opt then Inr None
      else
        case (case default_values of
                ListArg xs \<Rightarrow> Inr xs
              | ArrayArg xs \<Rightarrow> Inr xs
              | TupleArg xs \<Rightarrow> Inr xs
              | SetArg xs \<Rightarrow> Inr xs
              | Atom v \<Rightarrow> if py_truthy v \<and> v \<notin> set opt then py_list v else Inr [v]) of
          Inl e \<Rightarrow> Inl e
        | Inr vs \<Rightarrow>
            (case check_values opt vs of
               Some e \<Rightarrow> Inl e
             | None \<Rightarrow>
                 (case comprehension (py_index opt) vs of
                    Inl e \<Rightarrow> Inl e
                  | Inr indices \<Rightarrow> Inr (Some indices))))"

subsection \<open>\<open>MultiSelectSerde\<close>\<close>

record MultiSelectSerde =
  options :: "pyval list"
  default_value :: "int list"

definition serialize :: "MultiSelectSerde \<Rightarrow> pyarg \<Rightarrow> error + int list" where
  "serialize self v =
     (case check_and_convert_to_indices (options self) v of
        Inl e \<Rightarrow> Inl e
      | Inr indices \<Rightarrow> Inr (case indices of Some is \<Rightarrow> is | None \<Rightarrow> []))"

definition deserialize :: "MultiSelectSerde \<Rightarrow> int list option \<Rightarrow> string \<Rightarrow> error + pyval list" where
  "deserialize self ui_value widget_id =
     (let current_value = (case ui_value of Some is \<Rightarrow> is | None \<Rightarrow> default_value self)
      in comprehension (py_getitem (options self)) current_value)"

subsection \<open>\<open>_get_over_max_options_message\<close> and \<open>_get_default_count\<close>\<close>

definition get_over_max_options_message :: "int \<Rightarrow> int \<Rightarrow> string" where
  "get_over_max_options_message current_selections max_selections =
     (let curr_selections_noun = (if current_selections = 1 then ''option'' else ''options'');
          max_selections_noun = (if max_selections = 1 then ''option'' else ''options'')
      in ''\<newline>Multiselect has '' @ str_int current_selections @ '' '' @ curr_selections_noun
         @ '' selected but `max_selections`\<newline>is set to '' @ str_int max_selections
         @ ''. This happened because you either gave too many options to `default`\<newline>''
         @ ''or you manipulated the widget's state through `st.session_state`. Note that\<newline>''
         @ ''the latter can happen before the line indicated in the traceback.\<newline>''
         @ ''Please select at most '' @ str_int max_selections @ '' '' @ max_selections_noun
         @ ''.\<newline>'')"

text \<open>
  \<open>len(x)\<close>: a string counts its characters; \<open>None\<close> and integers have no length.
\<close>

fun py_len :: "pyarg \<Rightarrow> error + int" where
  "py_len (Atom PNone) = Inl (TypeError (''object of type '' @ [CHR 0x27] @ ''NoneType' has no len()''))"
| "py_len (Atom (PInt i)) = Inl (TypeError (''object of type '' @ [CHR 0x27] @ ''int' has no len()''))"
| "py_len (Atom (PStr s)) = Inr (int (length s))"
| "py_len (ListArg xs) = Inr (int (length xs))"
| "py_len (TupleArg xs) = Inr (int (length xs))"
| "py_len (SetArg xs) = Inr (int (length xs))"
| "py_len (ArrayArg xs) = Inr (int (length xs))"

text \<open>
  \<open>is_iterable\<close> is imported from \<open>streamlit.type_util\<close>, which is not among the
  sources: it is a parameter.
\<close>

definition get_default_count :: "(pyarg \<Rightarrow> bool) \<Rightarrow> pyarg \<Rightarrow> error + int" where
  "get_default_count is_iterable default_arg =
     (if default_arg = Atom PNone then Inr 0
      else if \<not> is_iterable default_arg then Inr 1
      else py_len default_arg)"

subsection \<open>Widget state, the outgoing message and the collaborators\<close>

text \<open>\<open>RegisterWidgetResult\<close>: what \<open>register_widget\<close> returns.\<close>

record RegisterWidgetResult =
  state_value :: pyarg
  value_changed :: bool

datatype ClickMode = SINGLE_SELECT | MULTI_SELECT

datatype SelectionVisualization = ONLY_SELECTED | ALL_UP_TO_SELECTED

text \<open>
  A formatted option: the string of \<open>_default_format_func\<close>, or whatever the caller's
  \<open>format_func\<close> returns (for a button group a \<open>ButtonGroupProto.Option\<close>).
\<close>

datatype 'f formatted = DefaultLabel string | Formatted 'f

text \<open>
  The fields of \<open>ButtonGroupProto\<close> and \<open>MultiSelectProto\<close> that the sources write.
\<close>

record 'f Proto =
  proto_id :: string
  proto_default :: "int list"
  proto_form_id :: string
  proto_disabled :: bool
  proto_click_mode :: ClickMode
  proto_options :: "'f formatted list"
  proto_selection_visualization :: SelectionVisualization
  proto_value :: "int list"
  proto_set_value :: bool

type_synonym WidgetDeserializer = "int list option \<Rightarrow> string \<Rightarrow> error + pyarg"

type_synonym WidgetSerializer = "pyarg \<Rightarrow> error + int list"

text \<open>
  The functions \<open>options_selector_utils.py\<close> imports from modules that are not among
  the sources, as parameters. \<open>'dg\<close> is the \<open>DeltaGenerator\<close>, \<open>'ctx\<close> the
  \<open>ScriptRunContext\<close>, \<open>'cb\<close> a callback, its \<open>args\<close> or its \<open>kwargs\<close>, and
  \<open>'t\<close> the value recorded for app testing. A collaborator that can raise returns a
  sum.
\<close>

record ('dg, 'ctx, 'cb, 'f, 't) utils_runtime =
  check_fragment_path_policy :: "'dg \<Rightarrow> error option"
  check_cache_replay_rules :: "error option"
  check_callback_rules :: "'dg \<Rightarrow> 'cb option \<Rightarrow> error option"
  check_session_state_rules :: "pyarg \<Rightarrow> string option \<Rightarrow> bool \<Rightarrow> error option"
  is_iterable :: "pyarg \<Rightarrow> bool"
  ensure_indexable :: "pyarg \<Rightarrow> error + pyval list"
  check_python_comparable :: "pyval list \<Rightarrow> error option"
  register_widget ::
    "string \<Rightarrow> 'f Proto \<Rightarrow> 'cb option \<Rightarrow> 'cb option \<Rightarrow> 'cb option \<Rightarrow>
     WidgetDeserializer \<Rightarrow> WidgetSerializer \<Rightarrow> 'ctx option \<Rightarrow> error + RegisterWidgetResult"
  maybe_coerce_enum_sequence ::
    "RegisterWidgetResult \<Rightarrow> pyarg \<Rightarrow> pyval list \<Rightarrow> error + RegisterWidgetResult"
  maybe_coerce_enum ::
    "RegisterWidgetResult \<Rightarrow> pyarg \<Rightarrow> pyval list \<Rightarrow> error + RegisterWidgetResult"
  save_for_app_testing :: "'ctx \<Rightarrow> string \<Rightarrow> 't \<Rightarrow> 'ctx"
  enqueue :: "'dg \<Rightarrow> string \<Rightarrow> 'f Proto \<Rightarrow> 'dg"

subsection \<open>\<open>check_multiselect_policies\<close>\<close>

text \<open>Four checks in a row; each returns the exception it raises, if any.\<close>

definition check_multiselect_policies ::
  "('dg, 'ctx, 'cb, 'f, 't) utils_runtime \<Rightarrow> 'dg \<Rightarrow> string option \<Rightarrow> 'cb option \<Rightarrow> pyarg \<Rightarrow>
   error option" where
  "check_multiselect_policies rt dg key on_change default_arg =
     (case check_fragment_path_policy rt dg of
        Some e \<Rightarrow> Some e
      | None \<Rightarrow>
          (case check_cache_replay_rules rt of
             Some e \<Rightarrow> Some e
           | None \<Rightarrow>
               (case check_callback_rules rt dg on_change of
                  Some e \<Rightarrow> Some e
                | None \<Rightarrow> check_session_state_rules rt default_arg key True)))"

subsection \<open>\<open>transform_options\<close>\<close>

definition default_format_func :: "pyval \<Rightarrow> 'f formatted" where
  "default_format_func option = DefaultLabel (py_str option)"

definition transform_options ::
  "('dg, 'ctx, 'cb, 'f, 't) utils_runtime \<Rightarrow> pyarg \<Rightarrow> pyarg \<Rightarrow> (pyval \<Rightarrow> 'f) option \<Rightarrow>
   error + (pyval list \<times> 'f formatted list \<times> int list)" where
  "transform_options rt opts default_arg format_func =
     (case ensure_indexable rt opts of
        Inl e \<Rightarrow> Inl e
      | Inr indexable_options \<Rightarrow>
          (case check_python_comparable rt indexable_options of
             Some e \<Rightarrow> Inl e
           | None \<Rightarrow>
               (case check_and_convert_to_indices indexable_options default_arg of
                  Inl e \<Rightarrow> Inl e
                | Inr default_indices \<Rightarrow>
                    let default_indices = (case default_indices of Some is \<Rightarrow> is | None \<Rightarrow> []);
                        format_func = (case format_func of
                                         None \<Rightarrow> default_format_func
                                       | Some f \<Rightarrow> (\<lambda>option. Formatted (f option)));
                        formatted_options = map format_func indexable_options
                    in Inr (indexable_options, formatted_options, default_indices))))"

subsection \<open>\<open>register_widget_and_enqueue\<close>\<close>

text \<open>
  The result is the returned value together with the objects the call mutates: the
  message \<open>proto\<close>, the context and the delta generator. Every write to them follows
  the last call that can raise, so an exception leaves them as they were.
\<close>

definition register_widget_and_enqueue ::
  "('dg, 'ctx, 'cb, 'f, 't) utils_runtime \<Rightarrow> 'dg \<Rightarrow> string \<Rightarrow> 'f Proto \<Rightarrow> string \<Rightarrow> pyarg \<Rightarrow>
   pyval list \<Rightarrow> WidgetDeserializer \<Rightarrow> WidgetSerializer \<Rightarrow> 'ctx option \<Rightarrow> 'cb option \<Rightarrow>
   'cb option \<Rightarrow> 'cb option \<Rightarrow> int option \<Rightarrow> 't \<Rightarrow>
   error + (pyarg \<times> 'f Proto \<times> 'ctx option \<times> 'dg)" where
  "register_widget_and_enqueue rt dg widget_name proto widget_id opts indexable_options
     deserializer serializer ctx on_change_handler args kwargs max_selections app_testing_value =
     (case register_widget rt widget_name proto on_change_handler args kwargs
             deserializer serializer ctx of
        Inl e \<Rightarrow> Inl e
      | Inr widget_state \<Rightarrow>
          case get_default_count (is_iterable rt) (state_value widget_state) of
            Inl e \<Rightarrow> Inl e
          | Inr default_count \<Rightarrow>
          case (case max_selections of
                  None \<Rightarrow> None
                | Some m \<Rightarrow>
                    if m \<noteq> 0 \<and> default_count > m
                    then Some (StreamlitAPIException (get_over_max_options_message default_count m))
                    else None) of
            Some e \<Rightarrow> Inl e
          | None \<Rightarrow>
            case (case state_value widget_state of
                    ListArg xs \<Rightarrow> maybe_coerce_enum_sequence rt widget_state opts indexable_options
                  | _ \<Rightarrow> maybe_coerce_enum rt widget_state opts indexable_options) of
              Inl e \<Rightarrow> Inl e
            | Inr widget_state \<Rightarrow>
                (case (if value_changed widget_state
                       then (case serializer (state_value widget_state) of
                               Inl e \<Rightarrow> Inl e
                             | Inr v \<Rightarrow> Inr (proto\<lparr>proto_value := v, proto_set_value := True\<rparr>))
                       else Inr proto) of
                   Inl e \<Rightarrow> Inl e
                 | Inr proto \<Rightarrow>
                     let ctx = (case ctx of
                                  None \<Rightarrow> None
                                | Some c \<Rightarrow> Some (save_for_app_testing rt c widget_id app_testing_value));
                         dg = enqueue rt dg widget_name proto
                     in Inr (state_value widget_state, proto, ctx, dg)))"

section \<open>button_group.py\<close>

subsection \<open>\<open>_build_proto\<close>\<close>

text \<open>
  \<open>proto.options\<close> of a \<open>ButtonGroupProto\<close> is a repeated field of
  \<open>ButtonGroupProto.Option\<close> messages: the loop of lines 82-83 appends each
  formatted option, and \<open>append\<close> raises \<open>TypeError\<close> for one that is a plain
  string, as \<open>_default_format_func\<close> produces them (the wording of the message is
  the protobuf library's; the text here stands for it).
\<close>

fun append_options :: "'f formatted list \<Rightarrow> 'f formatted list \<Rightarrow> error + 'f formatted list" where
  "append_options acc [] = Inr acc"
| "append_options acc (DefaultLabel s # rest) =
     Inl (TypeError ''expected a ButtonGroupProto.Option message, got str'')"
| "append_options acc (Formatted f # rest) = append_options (acc @ [Formatted f]) rest"

text \<open>
  A fresh \<open>ButtonGroupProto()\<close> has no options, no value and \<open>set_value\<close> false;
  \<open>_build_proto\<close> assigns the other fields and appends the options.
\<close>

definition build_proto ::
  "string \<Rightarrow> 'f formatted list \<Rightarrow> int list \<Rightarrow> bool \<Rightarrow> string \<Rightarrow> ClickMode \<Rightarrow>
   SelectionVisualization \<Rightarrow> error + 'f Proto" where
  "build_proto widget_id formatted_options default_values disabled current_form click_mode
     selection_visualization =
     (case append_options [] formatted_options of
        Inl e \<Rightarrow> Inl e
      | Inr appended \<Rightarrow>
          Inr \<lparr>proto_id = widget_id,
               proto_default = default_values,
               proto_form_id = current_form,
               proto_disabled = disabled,
               proto_click_mode = click_mode,
               proto_options = appended,
               proto_selection_visualization = selection_visualization,
               proto_value = [],
               proto_set_value = False\<rparr>)"

subsection \<open>The collaborators of \<open>button_group.py\<close>\<close>

text \<open>
  The \<open>options\<close> argument of \<open>feedback\<close>: a single value (a string by its type
  annotation, but any value can be passed) or a list.
\<close>

datatype feedback_arg = OptValue pyval | OptList "pyval list"

text \<open>
  What \<open>button_group.py\<close> imports and the sources do not define, as parameters:
  \<open>to_key\<close>, \<open>compute_widget_id\<close>, \<open>current_form_id\<close>, the context's
  \<open>active_script_hash\<close>, \<open>check_max_selections\<close> and \<open>maybe_coerce\<close> (imported
  from \<open>options_selector_utils\<close>, which does not define them), and from
  \<open>feedback_utils\<close> the functions \<open>get_mapped_options\<close> and \<open>create_format_func\<close>
  and the two methods of \<open>FeedbackSerde\<close>. \<open>'o\<close> is a transformed feedback option.
\<close>

record ('dg, 'ctx, 'cb, 'f, 'o) button_group_runtime =
  utils :: "('dg, 'ctx, 'cb, 'f, (pyval \<Rightarrow> 'f) option) utils_runtime"
  to_key :: "pyval \<Rightarrow> string option"
  compute_widget_id ::
    "string \<Rightarrow> string option \<Rightarrow> string option \<Rightarrow> 'f formatted list \<Rightarrow> int list \<Rightarrow> bool \<Rightarrow>
     SelectionVisualization \<Rightarrow> string option \<Rightarrow> string"
  current_form_id :: "'dg \<Rightarrow> string"
  active_script_hash :: "'ctx \<Rightarrow> string"
  check_max_selections :: "pyarg \<Rightarrow> int option \<Rightarrow> error option"
  maybe_coerce :: "RegisterWidgetResult \<Rightarrow> pyarg \<Rightarrow> pyval list \<Rightarrow> error + RegisterWidgetResult"
  get_mapped_options :: "feedback_arg \<Rightarrow> 'o list \<times> int list"
  create_format_func :: "'o list \<Rightarrow> pyval \<Rightarrow> 'f"
  FeedbackSerde_deserialize :: "int list \<Rightarrow> WidgetDeserializer"
  FeedbackSerde_serialize :: "int list \<Rightarrow> WidgetSerializer"

subsection \<open>\<open>ButtonGroupMixin._button_group\<close>\<close>

text \<open>
  \<open>dg\<close> is \<open>self.dg\<close> and \<open>ctx\<close> what \<open>get_script_run_ctx()\<close> returns. The
  default serde is the \<open>MultiSelectSerde\<close> of the indexable options; its
  \<open>deserialize\<close> returns a list.
\<close>

definition button_group ::
  "('dg, 'ctx, 'cb, 'f, 'o) button_group_runtime \<Rightarrow> 'dg \<Rightarrow> 'ctx option \<Rightarrow> pyarg \<Rightarrow> pyval \<Rightarrow> pyarg \<Rightarrow>
   ClickMode \<Rightarrow> bool \<Rightarrow> (pyval \<Rightarrow> 'f) option \<Rightarrow> WidgetDeserializer option \<Rightarrow>
   WidgetSerializer option \<Rightarrow> 'cb option \<Rightarrow> 'cb option \<Rightarrow> 'cb option \<Rightarrow> SelectionVisualization \<Rightarrow>
   error + (RegisterWidgetResult \<times> 'f Proto \<times> 'ctx option \<times> 'dg)" where
  "button_group rt dg ctx opts key default_arg click_mode disabled format_func deserializer
     serializer on_change args kwargs selection_visualization =
     (let key = to_key rt key in
      case check_multiselect_policies (utils rt) dg key on_change default_arg of
        Some e \<Rightarrow> Inl e
      | None \<Rightarrow>
      let widget_name = ''button_group'' in
      case transform_options (utils rt) opts default_arg format_func of
        Inl e \<Rightarrow> Inl e
      | Inr (indexable_options, formatted_options, default_values) \<Rightarrow>
      let widget_id = compute_widget_id rt widget_name key key formatted_options default_values
                        disabled selection_visualization (map_option (active_script_hash rt) ctx)
      in
      case build_proto widget_id formatted_options default_values disabled
             (current_form_id rt dg) click_mode selection_visualization of
        Inl e \<Rightarrow> Inl e
      | Inr proto \<Rightarrow>
      let serde = \<lparr>options = indexable_options, default_value = default_values\<rparr>;
          (deserializer, serializer) =
            (case (serializer, deserializer) of
               (Some ser, Some des) \<Rightarrow> (des, ser)
             | _ \<Rightarrow>
                 (\<lambda>ui_value wid.
                    case deserialize serde ui_value wid of
                      Inl e \<Rightarrow> Inl e
                    | Inr vs \<Rightarrow> Inr (ListArg vs),
                  serialize serde))
      in
      case register_widget (utils rt) ''button_group'' proto on_change args kwargs
             deserializer serializer ctx of
        Inl e \<Rightarrow> Inl e
      | Inr widget_state \<Rightarrow>
      case check_max_selections rt (state_value widget_state) None of
        Some e \<Rightarrow> Inl e
      | None \<Rightarrow>
      case maybe_coerce rt widget_state opts indexable_options of
        Inl e \<Rightarrow> Inl e
      | Inr widget_state \<Rightarrow>
      case (if value_changed widget_state
            then (case serializer (state_value widget_state) of
                    Inl e \<Rightarrow> Inl e
                  | Inr v \<Rightarrow> Inr (proto\<lparr>proto_value := v, proto_set_value := True\<rparr>))
            else Inr proto) of
        Inl e \<Rightarrow> Inl e
      | Inr proto \<Rightarrow>
          let ctx = (case ctx of
                       None \<Rightarrow> None
                     | Some c \<Rightarrow> Some (save_for_app_testing (utils rt) c widget_id format_func));
              dg = enqueue (utils rt) dg widget_name proto
          in Inr (widget_state, proto, ctx, dg))"

subsection \<open>\<open>ButtonGroupMixin.feedback\<close>\<close>

text \<open>
  Modelled from the spec: \<open>FeedbackOptions\<close> is declared in \<open>feedback_utils\<close>, which
  is not among the sources. The docstring of \<open>feedback\<close> and its error message give
  the labels: "thumbs", "faces" and "stars". This is \<open>get_args(FeedbackOptions)\<close>.
\<close>

definition FeedbackOptions :: "pyval list" where
  "FeedbackOptions = [PStr ''thumbs'', PStr ''faces'', PStr ''stars'']"

definition invalid_feedback_option_message :: "pyval \<Rightarrow> string" where
  "invalid_feedback_option_message v =
     ''The options argument to st.feedback must be one of ''
     @ ''['thumbs', 'faces', 'stars']. ''
     @ ''The argument passed was '' @ [CHR 0x27] @ py_str v @ '''.''"

text \<open>
  The check of line 202 raises for an argument that is not a list and not one of the
  labels; \<open>f"{options}"\<close> is then \<open>str\<close> of that value.
\<close>

definition feedback ::
  "('dg, 'ctx, 'cb, 'f, 'o) button_group_runtime \<Rightarrow> 'dg \<Rightarrow> 'ctx option \<Rightarrow> feedback_arg \<Rightarrow> pyval \<Rightarrow>
   bool \<Rightarrow> 'cb option \<Rightarrow> 'cb option \<Rightarrow> 'cb option \<Rightarrow>
   error + (pyarg \<times> 'f Proto \<times> 'ctx option \<times> 'dg)" where
  "feedback rt dg ctx opts key disabled on_change args kwargs =
     (case (case opts of
              OptList xs \<Rightarrow> None
            | OptValue v \<Rightarrow>
                if v \<notin> set FeedbackOptions
                then Some (StreamlitAPIException (invalid_feedback_option_message v))
                else None) of
        Some e \<Rightarrow> Inl e
      | None \<Rightarrow>
          let (transformed_options, options_indices) = get_mapped_options rt opts;
              format_func = create_format_func rt transformed_options;
              selection_visualization =
                (if opts = OptValue (PStr ''stars'') then ALL_UP_TO_SELECTED else ONLY_SELECTED)
          in
          case button_group rt dg ctx (ListArg (map PInt options_indices)) key (Atom PNone)
                 SINGLE_SELECT disabled (Some format_func)
                 (Some (FeedbackSerde_deserialize rt options_indices))
                 (Some (FeedbackSerde_serialize rt options_indices))
                 on_change args kwargs selection_visualization of
            Inl e \<Rightarrow> Inl e
          | Inr (sentiment, proto, ctx, dg) \<Rightarrow> Inr (state_value sentiment, proto, ctx, dg))"

section \<open>pages.py\<close>

text \<open>
  A \<open>Page\<close> after \<open>__init__\<close>; the field \<open>page\<close> holds \<open>str(self.page)\<close>, the
  resolved path or the callable as a string.
\<close>

record Page =
  page :: string
  title :: "string option"
  icon :: "string option"
  default_page :: bool
  page_key :: "string option"

text \<open>\<open>calc_md5\<close> is imported from \<open>streamlit.util\<close>: a parameter.\<close>

definition script_hash :: "(string \<Rightarrow> string) \<Rightarrow> Page \<Rightarrow> string" where
  "script_hash calc_md5 self = calc_md5 (page self)"

text \<open>The navigation part of a \<open>ForwardMsg\<close>.\<close>

record AppPage =
  page_script_hash :: string
  page_name :: string
  app_page_icon :: string

record NavSection =
  header :: string
  app_pages :: "AppPage list"

record ForwardMsg =
  navigation_sections :: "NavSection list"

text \<open>
  The fields of the script run context that \<open>navigation\<close> reads and writes:
  \<open>ctx.page_script_hash\<close>, \<open>ctx.pages\<close>, and the messages passed to
  \<open>ctx.enqueue\<close>, in order.
\<close>

record ScriptRunContext =
  ctx_page_script_hash :: string
  ctx_pages :: "(string \<times> Page) list"
  ctx_enqueued :: "ForwardMsg list"

text \<open>
  A \<open>dict\<close> is the list of its items in insertion order, the keys distinct.
  \<open>d[k] = v\<close> replaces the value of a key that is present, where it stands, and
  appends a new key.
\<close>

fun dict_set :: "('k \<times> 'v) list \<Rightarrow> 'k \<Rightarrow> 'v \<Rightarrow> ('k \<times> 'v) list" where
  "dict_set [] k v = [(k, v)]"
| "dict_set ((k', v') # d) k v =
     (if k' = k then (k', v) # d else (k', v') # dict_set d k v)"

text \<open>\<open>x or ""\<close> for an optional string.\<close>

definition or_empty :: "string option \<Rightarrow> string" where
  "or_empty x = (case x of None \<Rightarrow> [] | Some s \<Rightarrow> s)"

text \<open>The \<open>pages\<close> argument: a list of pages, or a dict from section headers to lists.\<close>

datatype pages_arg = PageList "Page list" | PageSections "(string \<times> Page list) list"

text \<open>
  The result is what \<open>navigation\<close> returns or raises, the script run context as the
  call leaves it (\<open>None\<close> when \<open>get_script_run_ctx()\<close> returned none), and the
  lines printed.
\<close>

definition navigation ::
  "(string \<Rightarrow> string) \<Rightarrow> ScriptRunContext option \<Rightarrow> pages_arg \<Rightarrow>
   (error + Page) \<times> ScriptRunContext option \<times> string list" where
  "navigation calc_md5 ctx_opt pages_in =
     (case ctx_opt of
        None \<Rightarrow> (Inl AssertionError, None, [])
      | Some ctx \<Rightarrow>
          let pages = (case pages_in of PageList ps \<Rightarrow> [([], ps)] | PageSections d \<Rightarrow> d);
              msg = \<lparr>navigation_sections =
                      map (\<lambda>(section, ps).
                             \<lparr>header = section,
                              app_pages =
                                map (\<lambda>p. \<lparr>page_script_hash = script_hash calc_md5 p,
                                          page_name = or_empty (title p),
                                          app_page_icon = or_empty (icon p)\<rparr>) ps\<rparr>) pages\<rparr>;
              ctx = ctx\<lparr>ctx_enqueued := ctx_enqueued ctx @ [msg]\<rparr>;
              page_dict = foldl (\<lambda>d p. dict_set d (script_hash calc_md5 p) p) []
                            (concat (map snd pages));
              ctx = ctx\<lparr>ctx_pages := page_dict\<rparr>
          in
          case map_of page_dict (ctx_page_script_hash ctx) of
            Some p \<Rightarrow> (Inr p, Some ctx, [])
          | None \<Rightarrow>
              (case map snd page_dict of
                 [] \<Rightarrow> (Inl (IndexError ''list index out of range''), Some ctx,
                        [''falling back to default page''])
               | p # rest \<Rightarrow> (Inr p, Some ctx, [''falling back to default page''])))"

text \<open>Every page of the table, in the order \<open>navigation\<close> visits them.\<close>

definition table_pages :: "pages_arg \<Rightarrow> Page list" where
  "table_pages pages_in =
     concat (map snd (case pages_in of PageList ps \<Rightarrow> [([], ps)] | PageSections d \<Rightarrow> d))"

section \<open>Concrete inputs\<close>

text \<open>The serde of a widget with the options \<open>["a", "b", "c"]\<close> and no default.\<close>

definition abc_serde :: MultiSelectSerde where
  "abc_serde = \<lparr>options = [PStr ''a'', PStr ''b'', PStr ''c''], default_value = []\<rparr>"

text \<open>
  A runtime for evaluating \<open>options_selector_utils.py\<close> on concrete inputs. The
  policies pass, \<open>is_iterable\<close> is Python's rule (\<open>None\<close> and integers are not
  iterable), \<open>register_widget\<close> returns the state \<open>stored\<close> for the widget, both
  coercions are \<open>coerce\<close>, the app-testing record and the delta generator's queue
  are lists that grow at the end.
\<close>

definition iterable :: "pyarg \<Rightarrow> bool" where
  "iterable a = (case a of Atom PNone \<Rightarrow> False | Atom (PInt i) \<Rightarrow> False | _ \<Rightarrow> True)"

definition keep :: "RegisterWidgetResult \<Rightarrow> pyarg \<Rightarrow> pyval list \<Rightarrow> error + RegisterWidgetResult" where
  "keep ws opts indexable_options = Inr ws"

definition test_runtime ::
  "RegisterWidgetResult \<Rightarrow>
   (RegisterWidgetResult \<Rightarrow> pyarg \<Rightarrow> pyval list \<Rightarrow> error + RegisterWidgetResult) \<Rightarrow>
   ((string \<times> 'f Proto) list, (string \<times> 't) list, unit, 'f, 't) utils_runtime" where
  "test_runtime stored coerce =
     \<lparr>check_fragment_path_policy = (\<lambda>dg. None),
      check_cache_replay_rules = None,
      check_callback_rules = (\<lambda>dg on_change. None),
      check_session_state_rules = (\<lambda>default_arg key writes_allowed. None),
      is_iterable = iterable,
      ensure_indexable = (\<lambda>a. case a of ListArg xs \<Rightarrow> Inr xs | _ \<Rightarrow> Inl (TypeError ''not indexable'')),
      check_python_comparable = (\<lambda>xs. None),
      register_widget = (\<lambda>widget_name proto on_change args kwargs deserializer serializer ctx. Inr stored),
      maybe_coerce_enum_sequence = coerce,
      maybe_coerce_enum = coerce,
      save_for_app_testing = (\<lambda>ctx widget_id v. ctx @ [(widget_id, v)]),
      enqueue = (\<lambda>dg widget_name proto. dg @ [(widget_name, proto)])\<rparr>"

text \<open>A coercion that resolves stale values by dropping what is no longer an option.\<close>

definition drop_stale :: "RegisterWidgetResult \<Rightarrow> pyarg \<Rightarrow> pyval list \<Rightarrow> error + RegisterWidgetResult" where
  "drop_stale ws opts indexable_options =
     Inr (case state_value ws of
            ListArg xs \<Rightarrow> ws\<lparr>state_value := ListArg (filter (\<lambda>v. v \<in> set indexable_options) xs)\<rparr>
          | _ \<Rightarrow> ws)"

definition multiselect_proto :: "string Proto" where
  "multiselect_proto =
     \<lparr>proto_id = ''w1'', proto_default = [0, 1, 2], proto_form_id = [], proto_disabled = False,
      proto_click_mode = MULTI_SELECT,
      proto_options = [DefaultLabel ''1'', DefaultLabel ''2'', DefaultLabel ''3'', DefaultLabel ''4'', DefaultLabel ''5''],
      proto_selection_visualization = ONLY_SELECTED, proto_value = [], proto_set_value = False\<rparr>"

definition one_to_five :: "pyval list" where
  "one_to_five = [PInt 1, PInt 2, PInt 3, PInt 4, PInt 5]"

definition one_to_five_serde :: MultiSelectSerde where
  "one_to_five_serde = \<lparr>options = one_to_five, default_value = [0, 1, 2]\<rparr>"

definition list_deserializer :: "MultiSelectSerde \<Rightarrow> WidgetDeserializer" where
  "list_deserializer serde ui_value wid =
     (case deserialize serde ui_value wid of Inl e \<Rightarrow> Inl e | Inr vs \<Rightarrow> Inr (ListArg vs))"

definition default_state :: RegisterWidgetResult where
  "default_state = \<lparr>state_value = ListArg [PInt 1, PInt 2, PInt 3], value_changed = False\<rparr>"

definition stale_state :: RegisterWidgetResult where
  "stale_state = \<lparr>state_value = ListArg [PInt 1, PInt 2, PInt 9], value_changed = True\<rparr>"

definition single_state :: RegisterWidgetResult where
  "single_state = \<lparr>state_value = ListArg [PInt 1], value_changed = False\<rparr>"

definition written_state :: RegisterWidgetResult where
  "written_state = \<lparr>state_value = ListArg [PInt 4, PInt 2], value_changed = True\<rparr>"

definition register_test ::
  "RegisterWidgetResult \<Rightarrow>
   (RegisterWidgetResult \<Rightarrow> pyarg \<Rightarrow> pyval list \<Rightarrow> error + RegisterWidgetResult) \<Rightarrow> int option \<Rightarrow>
   error + (pyarg \<times> string Proto \<times> (string \<times> pyarg) list option \<times> (string \<times> string Proto) list)" where
  "register_test stored coerce max_selections =
     register_widget_and_enqueue (test_runtime stored coerce) [] ''multiselect'' multiselect_proto
       ''w1'' (ListArg one_to_five) one_to_five (list_deserializer one_to_five_serde)
       (serialize one_to_five_serde) None None None None max_selections (Atom PNone)"

text \<open>
  A runtime for \<open>button_group.py\<close>: the widget id is built from the widget name,
  "thumbs" maps to two options and every other argument to five.
\<close>

definition test_button_runtime ::
  "RegisterWidgetResult \<Rightarrow>
   ((string \<times> string Proto) list, (string \<times> (pyval \<Rightarrow> string) option) list, unit, string, string)
     button_group_runtime" where
  "test_button_runtime stored =
     \<lparr>utils = test_runtime stored keep,
      to_key = (\<lambda>k. case k of PNone \<Rightarrow> None | v \<Rightarrow> Some (py_str v)),
      compute_widget_id = (\<lambda>widget_name user_key key formatted_options default_values disabled
                             selection_visualization page. ''id-'' @ widget_name),
      current_form_id = (\<lambda>dg. []),
      active_script_hash = (\<lambda>ctx. ''main''),
      check_max_selections = (\<lambda>v max_selections. None),
      maybe_coerce = keep,
      get_mapped_options = (\<lambda>opts. if opts = OptValue (PStr ''thumbs'')
                                     then ([''thumb_down'', ''thumb_up''], [0, 1])
                                     else ([''1'', ''2'', ''3'', ''4'', ''5''], [0, 1, 2, 3, 4])),
      create_format_func = (\<lambda>transformed_options v.
                              case v of
                                PInt i \<Rightarrow> (case py_getitem transformed_options i of
                                            Inr label \<Rightarrow> label
                                          | Inl e \<Rightarrow> [])
                              | _ \<Rightarrow> []),
      FeedbackSerde_deserialize = (\<lambda>options_indices ui_value wid.
                                     case ui_value of
                                       Some [i] \<Rightarrow> Inr (Atom (PInt i))
                                     | _ \<Rightarrow> Inr (Atom PNone)),
      FeedbackSerde_serialize = (\<lambda>options_indices v.
                                   case v of Atom (PInt i) \<Rightarrow> Inr [i] | _ \<Rightarrow> Inr [])\<rparr>"

definition thumbs_up :: RegisterWidgetResult where
  "thumbs_up = \<lparr>state_value = Atom (PInt 1), value_changed = True\<rparr>"

text \<open>
  A button group over the options 1 to 5 with the default \<open>[2]\<close>, a \<open>format_func\<close>
  and the default serde, and the message \<open>_build_proto\<close> builds for it.
\<close>

definition label_of :: "pyval \<Rightarrow> string" where
  "label_of v = ''option '' @ py_str v"

definition button_proto :: "string Proto" where
  "button_proto =
     \<lparr>proto_id = ''id-button_group'', proto_default = [1], proto_form_id = [],
      proto_disabled = False, proto_click_mode = MULTI_SELECT,
      proto_options = [Formatted ''option 1'', Formatted ''option 2'', Formatted ''option 3'',
                       Formatted ''option 4'', Formatted ''option 5''],
      proto_selection_visualization = ONLY_SELECTED, proto_value = [], proto_set_value = False\<rparr>"

definition button_test ::
  "RegisterWidgetResult \<Rightarrow>
   error + (RegisterWidgetResult \<times> string Proto \<times> (string \<times> (pyval \<Rightarrow> string) option) list option \<times>
            (string \<times> string Proto) list)" where
  "button_test stored =
     button_group (test_button_runtime stored) [] None (ListArg one_to_five) PNone
       (ListArg [PInt 2]) MULTI_SELECT False (Some label_of) None None None None None ONLY_SELECTED"

text \<open>
  Three pages, the third on the path of the first, and a context whose current page
  is none of them.
\<close>

definition home_page :: Page where
  "home_page = \<lparr>page = ''/app/home.py'', title = Some ''Home'', icon = None, default_page = True, page_key = None\<rparr>"

definition about_page :: Page where
  "about_page = \<lparr>page = ''/app/about.py'', title = Some ''About'', icon = None, default_page = False, page_key = None\<rparr>"

definition home_again :: Page where
  "home_again = \<lparr>page = ''/app/home.py'', title = Some ''Home again'', icon = None, default_page = False, page_key = None\<rparr>"

definition fresh_ctx :: ScriptRunContext where
  "fresh_ctx = \<lparr>ctx_page_script_hash = ''unknown'', ctx_pages = [], ctx_enqueued = []\<rparr>"

section \<open>Properties of the sequence primitives\<close>

lemma py_index_member:
  "v \<in> set opt \<Longrightarrow>
     \<exists>i. py_index opt v = Inr (int i) \<and> i < length opt \<and> opt ! i = v \<and> (\<forall>j<i. opt ! j \<noteq> v)"
proof (induction opt)
  case Nil
  then show ?case by simp
next
  case (Cons x xs)
  show ?case
  proof (cases "x = v")
    case True
    then show ?thesis by (intro exI [of _ 0]) simp
  next
    case False
    with Cons.prems have "v \<in> set xs" by simp
    from Cons.IH [OF this] obtain i where
      i: "py_index xs v = Inr (int i)" "i < length xs" "xs ! i = v" "\<forall>j<i. xs ! j \<noteq> v"
      by blast
    have "\<forall>j<Suc i. (x # xs) ! j \<noteq> v"
      using False i(4) by (auto simp: nth_Cons split: nat.splits)
    with False i show ?thesis
      by (intro exI [of _ "Suc i"]) (simp add: add.commute)
  qed
qed

lemma py_getitem_nat: "i < length xs \<Longrightarrow> py_getitem xs (int i) = Inr (xs ! i)"
  by (simp add: py_getitem_def)

lemma check_values_None: "check_values opt vs = None \<longleftrightarrow> set vs \<subseteq> set opt"
  by (induction vs) auto

lemma comprehension_index:
  "set vs \<subseteq> set opt \<Longrightarrow>
     \<exists>ixs. comprehension (py_index opt) vs = Inr ixs \<and> length ixs = length vs \<and>
       (\<forall>k<length vs. 0 \<le> ixs ! k \<and> nat (ixs ! k) < length opt \<and> opt ! nat (ixs ! k) = vs ! k \<and>
          (\<forall>j<nat (ixs ! k). opt ! j \<noteq> vs ! k))"
proof (induction vs)
  case Nil
  then show ?case by simp
next
  case (Cons v vs)
  then have "v \<in> set opt" and sub: "set vs \<subseteq> set opt" by simp_all
  from py_index_member [OF this(1)] obtain i where
    i: "py_index opt v = Inr (int i)" "i < length opt" "opt ! i = v" "\<forall>j<i. opt ! j \<noteq> v"
    by blast
  from Cons.IH [OF sub] obtain ixs where
    idx: "comprehension (py_index opt) vs = Inr ixs" "length ixs = length vs"
      "\<forall>k<length vs. 0 \<le> ixs ! k \<and> nat (ixs ! k) < length opt \<and> opt ! nat (ixs ! k) = vs ! k \<and>
          (\<forall>j<nat (ixs ! k). opt ! j \<noteq> vs ! k)"
    by blast
  have "\<forall>k<length (v # vs). 0 \<le> (int i # ixs) ! k \<and> nat ((int i # ixs) ! k) < length opt \<and>
          opt ! nat ((int i # ixs) ! k) = (v # vs) ! k \<and>
          (\<forall>j<nat ((int i # ixs) ! k). opt ! j \<noteq> (v # vs) ! k)"
    using i idx(3) by (auto simp: nth_Cons split: nat.splits)
  with i(1) idx(1,2) show ?case
    by (intro exI [of _ "int i # ixs"]) simp
qed

lemma comprehension_getitem:
  "\<forall>k<length ixs. 0 \<le> ixs ! k \<and> nat (ixs ! k) < length opt \<Longrightarrow>
     comprehension (py_getitem opt) ixs = Inr (map (\<lambda>i. opt ! nat i) ixs)"
proof (induction ixs)
  case Nil
  then show ?case by simp
next
  case (Cons i ixs)
  from Cons.prems have first: "0 \<le> i" "nat i < length opt" by auto
  from Cons.prems have rest: "\<forall>k<length ixs. 0 \<le> ixs ! k \<and> nat (ixs ! k) < length opt" by auto
  from first have "py_getitem opt i = Inr (opt ! nat i)"
    using py_getitem_nat [of "nat i" opt] by simp
  with Cons.IH [OF rest] show ?case by simp
qed

section \<open>The multi-select serde\<close>

lemma serialize_list:
  "serialize self (ListArg vs) =
     (case check_values (options self) vs of
        Some e \<Rightarrow> Inl e
      | None \<Rightarrow> comprehension (py_index (options self)) vs)"
  by (simp add: serialize_def check_and_convert_to_indices_def split: option.splits sum.splits)

text \<open>
  C1, as the claim states it, fails: for the options \<open>["a", "b", "c"]\<close> and the value
  \<open>["c", "a"]\<close>, \<open>serialize\<close> returns \<open>[2, 0]\<close>, the indices in the order of
  the caller's list, and not \<open>[0, 2]\<close>.
\<close>

theorem serialize_option_order_counterexample:
  "serialize abc_serde (ListArg [PStr ''c'', PStr ''a'']) = Inr [2, 0] \<and>
   serialize abc_serde (ListArg [PStr ''c'', PStr ''a'']) \<noteq> Inr [0, 2]"
  by (simp add: abc_serde_def serialize_def check_and_convert_to_indices_def)

text \<open>
  C1, amended: for every list of values that are all options, \<open>serialize\<close> returns one
  index per value, in the order of the caller's list: the \<open>k\<close>-th index is the first
  position of the \<open>k\<close>-th value in the options.
\<close>

theorem serialize_caller_order:
  assumes "set vs \<subseteq> set (options self)"
  shows "\<exists>ixs. serialize self (ListArg vs) = Inr ixs \<and> length ixs = length vs \<and>
       (\<forall>k<length vs. 0 \<le> ixs ! k \<and> nat (ixs ! k) < length (options self) \<and>
          options self ! nat (ixs ! k) = vs ! k \<and>
          (\<forall>j<nat (ixs ! k). options self ! j \<noteq> vs ! k))"
proof -
  from assms have "check_values (options self) vs = None"
    by (simp add: check_values_None)
  then have "serialize self (ListArg vs) = comprehension (py_index (options self)) vs"
    by (simp add: serialize_list)
  with comprehension_index [OF assms] show ?thesis by simp
qed

theorem serialize_caller_order_witness:
  "set [PStr ''c'', PStr ''a''] \<subseteq> set (options abc_serde) \<and>
   (\<exists>ixs. serialize abc_serde (ListArg [PStr ''c'', PStr ''a'']) = Inr ixs \<and>
      length ixs = length [PStr ''c'', PStr ''a''] \<and>
      (\<forall>k<length [PStr ''c'', PStr ''a''].
          0 \<le> ixs ! k \<and> nat (ixs ! k) < length (options abc_serde) \<and>
          options abc_serde ! nat (ixs ! k) = [PStr ''c'', PStr ''a''] ! k \<and>
          (\<forall>j<nat (ixs ! k). options abc_serde ! j \<noteq> [PStr ''c'', PStr ''a''] ! k)))"
proof -
  have h: "set [PStr ''c'', PStr ''a''] \<subseteq> set (options abc_serde)"
    by (simp add: abc_serde_def)
  from serialize_caller_order [OF h] h show ?thesis by blast
qed

text \<open>
  C3: for every list \<open>vs\<close> of options of the serde, \<open>serialize\<close> succeeds and
  \<open>deserialize\<close> maps its result back to \<open>vs\<close>.
\<close>

theorem serde_round_trip:
  assumes "set vs \<subseteq> set (options self)"
  shows "\<exists>ixs. serialize self (ListArg vs) = Inr ixs \<and> deserialize self (Some ixs) widget_id = Inr vs"
proof -
  from assms have "check_values (options self) vs = None"
    by (simp add: check_values_None)
  then have ser: "serialize self (ListArg vs) = comprehension (py_index (options self)) vs"
    by (simp add: serialize_list)
  from comprehension_index [OF assms] obtain ixs where
    idx: "comprehension (py_index (options self)) vs = Inr ixs" "length ixs = length vs"
      "\<forall>k<length vs. 0 \<le> ixs ! k \<and> nat (ixs ! k) < length (options self) \<and>
          options self ! nat (ixs ! k) = vs ! k \<and>
          (\<forall>j<nat (ixs ! k). options self ! j \<noteq> vs ! k)"
    by blast
  have "comprehension (py_getitem (options self)) ixs = Inr (map (\<lambda>i. options self ! nat i) ixs)"
    using idx(2,3) by (intro comprehension_getitem) simp
  moreover have "map (\<lambda>i. options self ! nat i) ixs = vs"
    using idx(2,3) by (intro nth_equalityI) simp_all
  ultimately have "deserialize self (Some ixs) widget_id = Inr vs"
    by (simp add: deserialize_def)
  with ser idx(1) show ?thesis by simp
qed

theorem serde_round_trip_witness:
  "set [PStr ''c'', PStr ''a'', PStr ''c''] \<subseteq> set (options abc_serde) \<and>
   (\<exists>ixs. serialize abc_serde (ListArg [PStr ''c'', PStr ''a'', PStr ''c'']) = Inr ixs \<and>
      deserialize abc_serde (Some ixs) [] = Inr [PStr ''c'', PStr ''a'', PStr ''c''])"
proof -
  have h: "set [PStr ''c'', PStr ''a'', PStr ''c''] \<subseteq> set (options abc_serde)"
    by (simp add: abc_serde_def)
  from serde_round_trip [OF h, of "[]"] h show ?thesis by blast
qed

section \<open>Default values\<close>

lemma check_values_first:
  "\<not> set vs \<subseteq> set opt \<Longrightarrow>
     \<exists>pre v post. vs = pre @ v # post \<and> set pre \<subseteq> set opt \<and> v \<notin> set opt \<and>
       check_values opt vs = Some (StreamlitAPIException (invalid_default_message v))"
proof (induction vs)
  case Nil
  then show ?case by simp
next
  case (Cons x xs)
  show ?case
  proof (cases "x \<in> set opt")
    case False
    then show ?thesis by (intro exI [of _ "[]"] exI [of _ x] exI [of _ xs]) simp
  next
    case True
    with Cons.prems have "\<not> set xs \<subseteq> set opt" by simp
    from Cons.IH [OF this] obtain pre v post where
      "xs = pre @ v # post" "set pre \<subseteq> set opt" "v \<notin> set opt"
      "check_values opt xs = Some (StreamlitAPIException (invalid_default_message v))"
      by blast
    with True show ?thesis
      by (intro exI [of _ "x # pre"] exI [of _ v] exI [of _ post]) simp
  qed
qed

text \<open>
  A default given as a list with a value that is not an option raises the
  invalid-default error, and the message names the first such value.
\<close>

lemma list_default_not_option:
  assumes "\<not> set vs \<subseteq> set opt"
  shows "\<exists>pre v post. vs = pre @ v # post \<and> set pre \<subseteq> set opt \<and> v \<notin> set opt \<and>
           check_and_convert_to_indices opt (ListArg vs) =
             Inl (StreamlitAPIException (invalid_default_message v))"
proof -
  from check_values_first [OF assms] obtain pre v post where
    "vs = pre @ v # post" "set pre \<subseteq> set opt" "v \<notin> set opt"
    "check_values opt vs = Some (StreamlitAPIException (invalid_default_message v))"
    by blast
  then show ?thesis
    by (intro exI [of _ pre] exI [of _ v] exI [of _ post])
       (simp add: check_and_convert_to_indices_def)
qed

text \<open>
  C2: with the options \<open>[1, 2, 3]\<close>, the default \<open>5\<close> given as a single value does
  not raise the invalid-default error: \<open>5\<close> is truthy and not an option, so line 109
  evaluates \<open>list(5)\<close>, which raises \<open>TypeError\<close>. The same value given as the
  list \<open>[5]\<close> raises the invalid-default error that mentions \<open>5\<close>.
\<close>

theorem scalar_default_type_error:
  "check_and_convert_to_indices [PInt 1, PInt 2, PInt 3] (Atom (PInt 5)) =
     Inl (TypeError (CHR 0x27 # ''int' object is not iterable'')) \<and>
   check_and_convert_to_indices [PInt 1, PInt 2, PInt 3] (ListArg [PInt 5]) =
     Inl (StreamlitAPIException
            (''The default value '' @ [CHR 0x27] @ ''5' is not part of the options. ''
             @ ''Please make sure that every default values also exists in the options.''))"
  by (simp add: check_and_convert_to_indices_def invalid_default_message_def str_int_def
        str_nat.simps digit_char_def)

section \<open>Registration\<close>

lemma over_max_message_3_2:
  "get_over_max_options_message 3 2 =
  ''\<newline>Multiselect has 3 options selected but `max_selections`\<newline>is set to 2. This happened because you either gave too many options to `default`\<newline>or you manipulated the widget's state through `st.session_state`. Note that\<newline>the latter can happen before the line indicated in the traceback.\<newline>Please select at most 2 options.\<newline>''"
  by (simp add: get_over_max_options_message_def str_int_def str_nat.simps digit_char_def)

lemma over_max_message_2_1:
  "get_over_max_options_message 2 1 =
  ''\<newline>Multiselect has 2 options selected but `max_selections`\<newline>is set to 1. This happened because you either gave too many options to `default`\<newline>or you manipulated the widget's state through `st.session_state`. Note that\<newline>the latter can happen before the line indicated in the traceback.\<newline>Please select at most 1 option.\<newline>''"
  by (simp add: get_over_max_options_message_def str_int_def str_nat.simps digit_char_def)

text \<open>
  C4, as the claim states it, fails: the count is taken from the value that
  \<open>register_widget\<close> returned, before any coercion. With a coercion that resolves
  stale values by dropping them, the stored value \<open>[1, 2, 9]\<close> and the limit 2, the
  registration raises for 3 selected options, although the coerced value \<open>[1, 2]\<close>
  is within the limit.
\<close>

theorem validation_after_coercion_counterexample:
  "register_test stale_state drop_stale (Some 2) =
     Inl (StreamlitAPIException (get_over_max_options_message 3 2)) \<and>
   drop_stale stale_state (ListArg one_to_five) one_to_five =
     Inr \<lparr>state_value = ListArg [PInt 1, PInt 2], value_changed = True\<rparr>"
  by (simp add: register_test_def test_runtime_def iterable_def drop_stale_def one_to_five_def
        stale_state_def register_widget_and_enqueue_def get_default_count_def)

text \<open>
  C4, amended: the validation of \<open>max_selections\<close> runs before the coercion step.
  When the value that \<open>register_widget\<close> returned counts more than a nonzero limit,
  the registration raises the over-max error for that count, whatever the two
  coercion functions are.
\<close>

theorem validation_before_coercion:
  assumes "register_widget rt widget_name proto on_change args kwargs deserializer serializer ctx = Inr ws"
    and "get_default_count (is_iterable rt) (state_value ws) = Inr n"
    and "max_selections = Some m" and "m \<noteq> 0" and "n > m"
  shows "register_widget_and_enqueue
           (rt\<lparr>maybe_coerce_enum_sequence := coerce_sequence, maybe_coerce_enum := coerce\<rparr>)
           dg widget_name proto widget_id opts indexable_options deserializer serializer ctx
           on_change args kwargs max_selections app_testing_value =
         Inl (StreamlitAPIException (get_over_max_options_message n m))"
  using assms by (simp add: register_widget_and_enqueue_def)

theorem validation_before_coercion_witness:
  "register_widget_and_enqueue
     (test_runtime stale_state keep\<lparr>maybe_coerce_enum_sequence := drop_stale, maybe_coerce_enum := drop_stale\<rparr>)
     [] ''multiselect'' multiselect_proto ''w1'' (ListArg one_to_five) one_to_five
     (list_deserializer one_to_five_serde) (serialize one_to_five_serde) None None None None
     (Some 2) (Atom PNone) =
   Inl (StreamlitAPIException (get_over_max_options_message 3 2))"
proof -
  let ?rt = "test_runtime stale_state keep :: ((string \<times> string Proto) list, (string \<times> pyarg) list, unit, string, pyarg) utils_runtime"
  have h1: "register_widget ?rt ''multiselect'' multiselect_proto None None None
              (list_deserializer one_to_five_serde) (serialize one_to_five_serde) None = Inr stale_state"
    by (simp add: test_runtime_def)
  have h2: "get_default_count (is_iterable ?rt) (state_value stale_state) = Inr 3"
    by (simp add: test_runtime_def iterable_def stale_state_def get_default_count_def)
  show ?thesis
    by (rule validation_before_coercion [OF h1 h2]) simp_all
qed

lemma register_override:
  assumes "register_widget_and_enqueue rt dg widget_name proto widget_id opts indexable_options
             deserializer serializer ctx on_change args kwargs max_selections app_testing_value =
           Inr (v, proto', ctx', dg')"
  shows "\<exists>ws ws'.
           register_widget rt widget_name proto on_change args kwargs deserializer serializer ctx = Inr ws \<and>
           (case state_value ws of
              ListArg xs \<Rightarrow> maybe_coerce_enum_sequence rt ws opts indexable_options
            | _ \<Rightarrow> maybe_coerce_enum rt ws opts indexable_options) = Inr ws' \<and>
           v = state_value ws' \<and>
           (if value_changed ws'
            then serializer v = Inr (proto_value proto') \<and>
                 proto' = proto\<lparr>proto_value := proto_value proto', proto_set_value := True\<rparr>
            else proto' = proto) \<and>
           dg' = enqueue rt dg widget_name proto'"
  using assms
  by (auto simp: register_widget_and_enqueue_def Let_def split: sum.splits option.splits if_splits)

lemma build_proto_fresh:
  "build_proto widget_id formatted_options default_values disabled current_form click_mode
     selection_visualization = Inr built \<Longrightarrow> proto_value built = [] \<and> \<not> proto_set_value built"
  by (auto simp: build_proto_def split: sum.splits)

lemma button_group_override:
  assumes "button_group brt bdg bctx bopts k default_arg click_mode disabled format_func
             bdeserializer bserializer bon_change bargs bkwargs selection_visualization =
           Inr (bws, bproto, bctx', bdg')"
  shows "\<exists>indexable_options formatted_options default_values built.
           transform_options (utils brt) bopts default_arg format_func =
             Inr (indexable_options, formatted_options, default_values) \<and>
           build_proto
             (compute_widget_id brt ''button_group'' (to_key brt k) (to_key brt k)
                formatted_options default_values disabled selection_visualization
                (map_option (active_script_hash brt) bctx))
             formatted_options default_values disabled (current_form_id brt bdg) click_mode
             selection_visualization = Inr built \<and>
           proto_value built = [] \<and> \<not> proto_set_value built \<and>
           (if value_changed bws
            then (case (bserializer, bdeserializer) of
                    (Some ser, Some des) \<Rightarrow> ser
                  | _ \<Rightarrow> serialize \<lparr>options = indexable_options, default_value = default_values\<rparr>)
                   (state_value bws) = Inr (proto_value bproto) \<and>
                 bproto = built\<lparr>proto_value := proto_value bproto, proto_set_value := True\<rparr>
            else bproto = built) \<and>
           bdg' = enqueue (utils brt) bdg ''button_group'' bproto"
proof -
  from assms obtain indexable_options formatted_options default_values where
    t: "transform_options (utils brt) bopts default_arg format_func =
          Inr (indexable_options, formatted_options, default_values)"
    by (auto simp: button_group_def Let_def split: option.splits sum.splits)
  let ?wid = "compute_widget_id brt ''button_group'' (to_key brt k) (to_key brt k)
                formatted_options default_values disabled selection_visualization
                (map_option (active_script_hash brt) bctx)"
  from assms t obtain built where
    b: "build_proto ?wid formatted_options default_values disabled (current_form_id brt bdg)
          click_mode selection_visualization = Inr built"
    by (auto simp: button_group_def Let_def split: option.splits sum.splits)
  note fresh = build_proto_fresh [OF b]
  have "(if value_changed bws
         then (case (bserializer, bdeserializer) of
                 (Some ser, Some des) \<Rightarrow> ser
               | _ \<Rightarrow> serialize \<lparr>options = indexable_options, default_value = default_values\<rparr>)
                (state_value bws) = Inr (proto_value bproto) \<and>
              bproto = built\<lparr>proto_value := proto_value bproto, proto_set_value := True\<rparr>
         else bproto = built) \<and>
        bdg' = enqueue (utils brt) bdg ''button_group'' bproto"
    using assms t b
    by (auto simp: button_group_def Let_def split: option.splits sum.splits if_splits prod.splits)
  with t b fresh show ?thesis by blast
qed

text \<open>
  C5: when \<open>register_widget_and_enqueue\<close> returns, the message it enqueued is
  \<open>proto\<close> itself if \<open>value_changed\<close> of the widget state (as line 213 reads it,
  after the coercion) is false; only if it is true are \<open>proto.value\<close> and
  \<open>proto.set_value\<close> written, with the serialized value and \<open>True\<close>, and nothing
  else of the message changes. The same holds of \<open>_button_group\<close>: the message it
  enqueues is the one \<open>_build_proto\<close> built, with no value and \<open>set_value\<close>
  false, if \<open>value_changed\<close> of the state it returns is false, and that message
  with the serialized value and \<open>set_value\<close> true otherwise.
\<close>

theorem override_only_if_changed:
  "(register_widget_and_enqueue rt dg widget_name proto widget_id opts indexable_options
      deserializer serializer ctx on_change args kwargs max_selections app_testing_value =
    Inr (v, proto', ctx', dg') \<longrightarrow>
    (\<exists>ws ws'.
       register_widget rt widget_name proto on_change args kwargs deserializer serializer ctx = Inr ws \<and>
       (case state_value ws of
          ListArg xs \<Rightarrow> maybe_coerce_enum_sequence rt ws opts indexable_options
        | _ \<Rightarrow> maybe_coerce_enum rt ws opts indexable_options) = Inr ws' \<and>
       v = state_value ws' \<and>
       (if value_changed ws'
        then serializer v = Inr (proto_value proto') \<and>
             proto' = proto\<lparr>proto_value := proto_value proto', proto_set_value := True\<rparr>
        else proto' = proto) \<and>
       dg' = enqueue rt dg widget_name proto')) \<and>
   (button_group brt bdg bctx bopts k default_arg click_mode disabled format_func
      bdeserializer bserializer bon_change bargs bkwargs selection_visualization =
    Inr (bws, bproto, bctx', bdg') \<longrightarrow>
    (\<exists>options_list formatted_options default_values built.
       transform_options (utils brt) bopts default_arg format_func =
         Inr (options_list, formatted_options, default_values) \<and>
       build_proto
         (compute_widget_id brt ''button_group'' (to_key brt k) (to_key brt k)
            formatted_options default_values disabled selection_visualization
            (map_option (active_script_hash brt) bctx))
         formatted_options default_values disabled (current_form_id brt bdg) click_mode
         selection_visualization = Inr built \<and>
       proto_value built = [] \<and> \<not> proto_set_value built \<and>
       (if value_changed bws
        then (case (bserializer, bdeserializer) of
                (Some ser, Some des) \<Rightarrow> ser
              | _ \<Rightarrow> serialize \<lparr>options = options_list, default_value = default_values\<rparr>)
               (state_value bws) = Inr (proto_value bproto) \<and>
             bproto = built\<lparr>proto_value := proto_value bproto, proto_set_value := True\<rparr>
        else bproto = built) \<and>
       bdg' = enqueue (utils brt) bdg ''button_group'' bproto))"
  by (intro conjI impI register_override button_group_override)

theorem override_only_if_changed_witness:
  "register_test default_state keep None =
     Inr (ListArg [PInt 1, PInt 2, PInt 3], multiselect_proto, None,
          [(''multiselect'', multiselect_proto)]) \<and>
   register_test written_state keep None =
     Inr (ListArg [PInt 4, PInt 2],
          multiselect_proto\<lparr>proto_value := [3, 1], proto_set_value := True\<rparr>, None,
          [(''multiselect'', multiselect_proto\<lparr>proto_value := [3, 1], proto_set_value := True\<rparr>)]) \<and>
   (\<exists>ws'. keep default_state (ListArg one_to_five) one_to_five = Inr ws' \<and>
      \<not> value_changed ws') \<and>
   (\<exists>ws'. keep written_state (ListArg one_to_five) one_to_five = Inr ws' \<and>
      value_changed ws' \<and> serialize one_to_five_serde (state_value ws') = Inr [3, 1]) \<and>
   button_test default_state =
     Inr (default_state, button_proto, None, [(''button_group'', button_proto)]) \<and>
   button_test written_state =
     Inr (written_state, button_proto\<lparr>proto_value := [3, 1], proto_set_value := True\<rparr>, None,
          [(''button_group'', button_proto\<lparr>proto_value := [3, 1], proto_set_value := True\<rparr>)]) \<and>
   (\<exists>built. proto_value built = [] \<and> \<not> proto_set_value built \<and> button_proto = built) \<and>
   (\<exists>built. proto_value built = [] \<and> \<not> proto_set_value built \<and>
      button_proto\<lparr>proto_value := [3, 1], proto_set_value := True\<rparr> =
        built\<lparr>proto_value := [3, 1], proto_set_value := True\<rparr>)"
proof -
  have h1: "register_widget_and_enqueue (test_runtime default_state keep) [] ''multiselect''
              multiselect_proto ''w1'' (ListArg one_to_five) one_to_five
              (list_deserializer one_to_five_serde) (serialize one_to_five_serde) None None None None
              None (Atom PNone) =
            Inr (ListArg [PInt 1, PInt 2, PInt 3], multiselect_proto, None,
                 [(''multiselect'', multiselect_proto)])"
    by (simp add: test_runtime_def iterable_def keep_def default_state_def
          register_widget_and_enqueue_def get_default_count_def)
  have h2: "register_widget_and_enqueue (test_runtime written_state keep) [] ''multiselect''
              multiselect_proto ''w1'' (ListArg one_to_five) one_to_five
              (list_deserializer one_to_five_serde) (serialize one_to_five_serde) None None None None
              None (Atom PNone) =
            Inr (ListArg [PInt 4, PInt 2],
                 multiselect_proto\<lparr>proto_value := [3, 1], proto_set_value := True\<rparr>, None,
                 [(''multiselect'', multiselect_proto\<lparr>proto_value := [3, 1], proto_set_value := True\<rparr>)])"
    by (simp add: test_runtime_def iterable_def keep_def written_state_def one_to_five_def
          one_to_five_serde_def register_widget_and_enqueue_def get_default_count_def
          serialize_def check_and_convert_to_indices_def)
  have h3: "button_group (test_button_runtime default_state) [] None (ListArg one_to_five) PNone
              (ListArg [PInt 2]) MULTI_SELECT False (Some label_of) None None None None None
              ONLY_SELECTED =
            Inr (default_state, button_proto, None, [(''button_group'', button_proto)])"
    by (simp add: test_button_runtime_def test_runtime_def keep_def default_state_def
          button_group_def check_multiselect_policies_def transform_options_def
          check_and_convert_to_indices_def build_proto_def label_of_def
          one_to_five_def button_proto_def str_int_def str_nat.simps digit_char_def Let_def)
  have h4: "button_group (test_button_runtime written_state) [] None (ListArg one_to_five) PNone
              (ListArg [PInt 2]) MULTI_SELECT False (Some label_of) None None None None None
              ONLY_SELECTED =
            Inr (written_state, button_proto\<lparr>proto_value := [3, 1], proto_set_value := True\<rparr>, None,
                 [(''button_group'', button_proto\<lparr>proto_value := [3, 1], proto_set_value := True\<rparr>)])"
    by (simp add: test_button_runtime_def test_runtime_def keep_def written_state_def
          button_group_def check_multiselect_policies_def transform_options_def
          check_and_convert_to_indices_def build_proto_def label_of_def serialize_def
          one_to_five_def button_proto_def str_int_def str_nat.simps digit_char_def Let_def)
  from override_only_if_changed [THEN conjunct1, THEN mp, OF h1] have c1:
    "\<exists>ws'. keep default_state (ListArg one_to_five) one_to_five = Inr ws' \<and> \<not> value_changed ws'"
    by (auto simp: test_runtime_def default_state_def multiselect_proto_def split: if_splits)
  from override_only_if_changed [THEN conjunct1, THEN mp, OF h2] have c2:
    "\<exists>ws'. keep written_state (ListArg one_to_five) one_to_five = Inr ws' \<and>
       value_changed ws' \<and> serialize one_to_five_serde (state_value ws') = Inr [3, 1]"
    by (auto simp: test_runtime_def written_state_def multiselect_proto_def split: if_splits)
  from override_only_if_changed [THEN conjunct2, THEN mp, OF h3] have c3:
    "\<exists>built. proto_value built = [] \<and> \<not> proto_set_value built \<and> button_proto = built"
    by (auto simp: default_state_def)
  from override_only_if_changed [THEN conjunct2, THEN mp, OF h4] have c4:
    "\<exists>built. proto_value built = [] \<and> \<not> proto_set_value built \<and>
       button_proto\<lparr>proto_value := [3, 1], proto_set_value := True\<rparr> =
         built\<lparr>proto_value := [3, 1], proto_set_value := True\<rparr>"
    by (auto simp: written_state_def)
  from h1 h2 h3 h4 c1 c2 c3 c4 show ?thesis by (simp add: register_test_def button_test_def)
qed

text \<open>
  Without a \<open>format_func\<close> the labels are plain strings, and \<open>_build_proto\<close> raises
  before anything is registered or enqueued.
\<close>

lemma button_group_default_labels:
  "button_group (test_button_runtime default_state) [] None (ListArg one_to_five) PNone
     (ListArg [PInt 2]) MULTI_SELECT False None None None None None None ONLY_SELECTED =
   Inl (TypeError ''expected a ButtonGroupProto.Option message, got str'')"
  by (simp add: test_button_runtime_def test_runtime_def keep_def default_state_def
        button_group_def check_multiselect_policies_def transform_options_def
        check_and_convert_to_indices_def build_proto_def default_format_func_def
        one_to_five_def Let_def)

text \<open>
  C6, as the claim states it, fails for the limit 0: \<open>max_selections and ...\<close>
  treats 0 like no limit, so a value with one element registers.
\<close>

theorem over_max_zero_limit_counterexample:
  "register_test single_state keep (Some 0) =
     Inr (ListArg [PInt 1], multiselect_proto, None, [(''multiselect'', multiselect_proto)]) \<and>
   (0::int) < int (length [PInt 1])"
  by (simp add: register_test_def test_runtime_def iterable_def keep_def single_state_def
        register_widget_and_enqueue_def get_default_count_def)

text \<open>
  C6, amended: for a registered list value whose coercion and serialization succeed,
  the registration raises exactly when \<open>max_selections\<close> is a nonzero limit below the
  length of the value, and then with the over-max message for that length and limit.
  The message for 3 selected and a limit of 2 cites "3 options" and "is set to 2"; the
  noun is singular for a count of 1, as in "at most 1 option".
\<close>

theorem over_max_error_iff:
  assumes reg: "register_widget rt widget_name proto on_change args kwargs deserializer serializer ctx = Inr ws"
    and val: "state_value ws = ListArg xs"
    and iter: "is_iterable rt (ListArg xs)"
    and coerce: "maybe_coerce_enum_sequence rt ws opts indexable_options = Inr ws'"
    and ser: "value_changed ws' \<longrightarrow> (\<exists>ixs. serializer (state_value ws') = Inr ixs)"
  shows "((\<exists>e. register_widget_and_enqueue rt dg widget_name proto widget_id opts indexable_options
             deserializer serializer ctx on_change args kwargs max_selections app_testing_value = Inl e)
          \<longleftrightarrow> (\<exists>m. max_selections = Some m \<and> m \<noteq> 0 \<and> m < int (length xs))) \<and>
         (\<forall>m. max_selections = Some m \<and> m \<noteq> 0 \<and> m < int (length xs) \<longrightarrow>
            register_widget_and_enqueue rt dg widget_name proto widget_id opts indexable_options
              deserializer serializer ctx on_change args kwargs max_selections app_testing_value =
            Inl (StreamlitAPIException (get_over_max_options_message (int (length xs)) m))) \<and>
         get_over_max_options_message 3 2 =
  ''\<newline>Multiselect has 3 options selected but `max_selections`\<newline>is set to 2. This happened because you either gave too many options to `default`\<newline>or you manipulated the widget's state through `st.session_state`. Note that\<newline>the latter can happen before the line indicated in the traceback.\<newline>Please select at most 2 options.\<newline>'' \<and>
         get_over_max_options_message 2 1 =
  ''\<newline>Multiselect has 2 options selected but `max_selections`\<newline>is set to 1. This happened because you either gave too many options to `default`\<newline>or you manipulated the widget's state through `st.session_state`. Note that\<newline>the latter can happen before the line indicated in the traceback.\<newline>Please select at most 1 option.\<newline>''"
proof -
  have count: "get_default_count (is_iterable rt) (state_value ws) = Inr (int (length xs))"
    using val iter by (simp add: get_default_count_def)
  show ?thesis
  proof (cases "\<exists>m. max_selections = Some m \<and> m \<noteq> 0 \<and> m < int (length xs)")
    case True
    then obtain m where m: "max_selections = Some m" "m \<noteq> 0" "m < int (length xs)" by blast
    with reg count show ?thesis
      by (simp add: register_widget_and_enqueue_def over_max_message_3_2 over_max_message_2_1)
  next
    case False
    then have none: "(case max_selections of
                  None \<Rightarrow> None
                | Some m \<Rightarrow>
                    if m \<noteq> 0 \<and> int (length xs) > m
                    then Some (StreamlitAPIException (get_over_max_options_message (int (length xs)) m))
                    else None) = None"
      by (cases max_selections) auto
    from ser obtain r where "register_widget_and_enqueue rt dg widget_name proto widget_id opts indexable_options
             deserializer serializer ctx on_change args kwargs max_selections app_testing_value = Inr r"
      using reg count none val coerce
      by (cases "value_changed ws'") (auto simp: register_widget_and_enqueue_def Let_def)
    with False show ?thesis
      by (auto simp: over_max_message_3_2 over_max_message_2_1)
  qed
qed

theorem over_max_error_iff_witness:
  "register_test written_state keep (Some 1) =
     Inl (StreamlitAPIException (get_over_max_options_message 2 1)) \<and>
   (\<exists>r. register_test written_state keep (Some 2) = Inr r) \<and>
   (\<exists>r. register_test written_state keep None = Inr r)"
proof -
  let ?rt = "test_runtime written_state keep ::
    ((string \<times> string Proto) list, (string \<times> pyarg) list, unit, string, pyarg) utils_runtime"
  have reg: "register_widget ?rt ''multiselect'' multiselect_proto None None None
               (list_deserializer one_to_five_serde) (serialize one_to_five_serde) None =
             Inr written_state"
    by (simp add: test_runtime_def)
  have val: "state_value written_state = ListArg [PInt 4, PInt 2]"
    by (simp add: written_state_def)
  have iter: "is_iterable ?rt (ListArg [PInt 4, PInt 2])"
    by (simp add: test_runtime_def iterable_def)
  have coerce: "maybe_coerce_enum_sequence ?rt written_state (ListArg one_to_five) one_to_five =
                Inr written_state"
    by (simp add: test_runtime_def keep_def)
  have ser: "value_changed written_state \<longrightarrow>
               (\<exists>ixs. serialize one_to_five_serde (state_value written_state) = Inr ixs)"
    by (simp add: written_state_def one_to_five_serde_def one_to_five_def serialize_def
          check_and_convert_to_indices_def)
  note inst = over_max_error_iff [OF reg val iter coerce ser, of "[]" "''w1''" _ "Atom PNone"]
  from inst [of "Some 1"] have a:
    "register_test written_state keep (Some 1) =
       Inl (StreamlitAPIException (get_over_max_options_message 2 1))"
    by (simp add: register_test_def)
  from inst [of "Some 2"] have b: "\<exists>r. register_test written_state keep (Some 2) = Inr r"
    by (cases "register_test written_state keep (Some 2)") (auto simp: register_test_def)
  from inst [of None] have c: "\<exists>r. register_test written_state keep None = Inr r"
    by (cases "register_test written_state keep None") (auto simp: register_test_def)
  from a b c show ?thesis by simp
qed

section \<open>Navigation\<close>

lemma map_of_dict_set: "map_of (dict_set d k v) = (map_of d)(k \<mapsto> v)"
  by (induction d) (auto simp: fun_eq_iff)

lemma dict_set_first: "d \<noteq> [] \<Longrightarrow> fst (hd (dict_set d k v)) = fst (hd d) \<and> dict_set d k v \<noteq> []"
  by (cases d) (auto split: if_splits)

lemma dict_set_entries:
  "(k', v') \<in> set (dict_set d k v) \<Longrightarrow> (k', v') \<in> set d \<or> (k', v') = (k, v)"
  by (induction d) (auto split: if_splits)

lemma fold_dom:
  "dom (map_of (foldl (\<lambda>d p. dict_set d (h p) p) d ps)) = dom (map_of d) \<union> h ` set ps"
  by (induction ps arbitrary: d) (auto simp: map_of_dict_set)

lemma fold_first:
  "d \<noteq> [] \<Longrightarrow> foldl (\<lambda>d p. dict_set d (h p) p) d ps \<noteq> [] \<and>
     fst (hd (foldl (\<lambda>d p. dict_set d (h p) p) d ps)) = fst (hd d)"
proof (induction ps arbitrary: d)
  case Nil
  then show ?case by simp
next
  case (Cons p ps)
  from dict_set_first [OF Cons.prems, of "h p" p]
  have step: "dict_set d (h p) p \<noteq> []" "fst (hd (dict_set d (h p) p)) = fst (hd d)" by simp_all
  from Cons.IH [OF step(1)] step(2) show ?case by simp
qed

lemma fold_entries:
  "(k, v) \<in> set (foldl (\<lambda>d p. dict_set d (h p) p) d ps) \<Longrightarrow>
     (k, v) \<in> set d \<or> (v \<in> set ps \<and> k = h v)"
proof (induction ps arbitrary: d)
  case Nil
  then show ?case by simp
next
  case (Cons p ps)
  from Cons.IH [of "dict_set d (h p) p"] Cons.prems
  have "(k, v) \<in> set (dict_set d (h p) p) \<or> (v \<in> set ps \<and> k = h v)" by simp
  then show ?case using dict_set_entries [of k v d "h p" p] by auto
qed

lemma page_dict_first:
  assumes "ps \<noteq> []"
  shows "\<exists>p rest. foldl (\<lambda>d p. dict_set d (h p) p) [] ps = (h (hd ps), p) # rest \<and>
           p \<in> set ps \<and> h p = h (hd ps)"
proof -
  from assms obtain p0 ps' where ps: "ps = p0 # ps'" by (cases ps) auto
  let ?d = "foldl (\<lambda>d p. dict_set d (h p) p) [(h p0, p0)] ps'"
  have d: "foldl (\<lambda>d p. dict_set d (h p) p) [] ps = ?d" by (simp add: ps)
  from fold_first [of "[(h p0, p0)]" h ps'] have ne: "?d \<noteq> []" and k: "fst (hd ?d) = h p0" by simp_all
  from ne obtain k' p rest where e: "?d = (k', p) # rest" by (cases ?d) auto
  with k have k': "k' = h p0" by simp
  from e have "(k', p) \<in> set ?d" by simp
  from fold_entries [OF this] have "p \<in> set ps \<and> k' = h p" by (auto simp: ps)
  with e k' d show ?thesis by (auto simp: ps)
qed

lemma fold_lookup:
  "map_of (foldl (\<lambda>d p. dict_set d (h p) p) d ps) k =
     (case filter (\<lambda>q. h q = k) ps of [] \<Rightarrow> map_of d k | q # qs \<Rightarrow> Some (last (q # qs)))"
proof (induction ps arbitrary: d)
  case Nil
  then show ?case by simp
next
  case (Cons p ps)
  show ?case
    by (simp add: Cons.IH map_of_dict_set split: list.splits)
qed

text \<open>
  C7, as the claim states it, fails for the empty table: there is no entry to fall
  back to, and \<open>list(page_dict.values())[0]\<close> raises \<open>IndexError\<close>.
\<close>

theorem navigation_empty_table_counterexample:
  "fst (navigation id (Some fresh_ctx) (PageList [])) = Inl (IndexError ''list index out of range'')"
  by (simp add: navigation_def fresh_ctx_def)

text \<open>
  C7, amended: for every table with at least one page and every current page hash
  that no page of the table has, \<open>navigation\<close> does not raise: it prints the
  diagnostic and returns a page of the table, the one that \<open>ctx.pages\<close> stores under
  the hash of the table's first page, which is the last page of the table with that
  hash.
\<close>

theorem navigation_fallback:
  assumes "table_pages pages_in \<noteq> []"
    and "ctx_page_script_hash ctx \<notin> script_hash calc_md5 ` set (table_pages pages_in)"
  shows "\<exists>p ctx'. navigation calc_md5 (Some ctx) pages_in =
             (Inr p, Some ctx', [''falling back to default page'']) \<and>
           p \<in> set (table_pages pages_in) \<and>
           map_of (ctx_pages ctx') (script_hash calc_md5 (hd (table_pages pages_in))) = Some p \<and>
           p = last (filter (\<lambda>q. script_hash calc_md5 q = script_hash calc_md5 (hd (table_pages pages_in)))
                       (table_pages pages_in))"
proof -
  let ?h = "script_hash calc_md5"
  let ?ps = "table_pages pages_in"
  let ?d = "foldl (\<lambda>d p. dict_set d (?h p) p) [] ?ps"
  from page_dict_first [OF assms(1), of ?h] obtain p rest where
    d: "?d = (?h (hd ?ps), p) # rest" and p: "p \<in> set ?ps" "?h p = ?h (hd ?ps)" by blast
  have "dom (map_of ?d) = ?h ` set ?ps" using fold_dom [of ?h "[]" ?ps] by simp
  with assms(2) have miss: "map_of ?d (ctx_page_script_hash ctx) = None" by (auto simp: dom_def)
  from d have stored: "map_of ?d (?h (hd ?ps)) = Some p" by simp
  from assms(1) have "filter (\<lambda>q. ?h q = ?h (hd ?ps)) ?ps \<noteq> []"
    by (cases ?ps) auto
  with stored fold_lookup [of ?h "[]" ?ps "?h (hd ?ps)"]
  have lastp: "p = last (filter (\<lambda>q. ?h q = ?h (hd ?ps)) ?ps)"
    by (auto split: list.splits)
  have "\<exists>ctx'. navigation calc_md5 (Some ctx) pages_in =
          (Inr p, Some ctx', [''falling back to default page'']) \<and> ctx_pages ctx' = ?d"
    using miss d unfolding navigation_def table_pages_def Let_def
    by (simp split: pages_arg.splits)
  with p stored lastp show ?thesis by auto
qed

theorem navigation_fallback_witness:
  "table_pages (PageList [home_page, about_page, home_again]) \<noteq> [] \<and>
   ctx_page_script_hash fresh_ctx \<notin>
     script_hash id ` set (table_pages (PageList [home_page, about_page, home_again])) \<and>
   fst (navigation id (Some fresh_ctx) (PageList [home_page, about_page, home_again])) = Inr home_again \<and>
   snd (snd (navigation id (Some fresh_ctx) (PageList [home_page, about_page, home_again]))) =
     [''falling back to default page'']"
proof -
  let ?t = "PageList [home_page, about_page, home_again]"
  have h1: "table_pages ?t \<noteq> []"
    by (simp add: table_pages_def)
  have h2: "ctx_page_script_hash fresh_ctx \<notin> script_hash id ` set (table_pages ?t)"
    by (simp add: table_pages_def fresh_ctx_def script_hash_def home_page_def about_page_def
          home_again_def)
  have l: "last (filter (\<lambda>q. script_hash id q = script_hash id (hd (table_pages ?t))) (table_pages ?t))
           = home_again"
    by (simp add: table_pages_def script_hash_def home_page_def about_page_def home_again_def)
  from navigation_fallback [OF h1 h2] l h1 h2 show ?thesis by auto
qed

section \<open>Feedback\<close>



text \<open>
  C10: for a list argument, whatever its elements, the check of the labels is
  skipped: the outcome of \<open>feedback\<close> is the outcome of the \<open>_button_group\<close> call
  on the mapped options.
\<close>

theorem feedback_list_skips_check:
  "feedback rt dg ctx (OptList xs) k disabled on_change args kwargs =
     map_sum id (\<lambda>(sentiment, rest). (state_value sentiment, rest))
       (button_group rt dg ctx
          (ListArg (map PInt (snd (get_mapped_options rt (OptList xs))))) k (Atom PNone)
          SINGLE_SELECT disabled
          (Some (create_format_func rt (fst (get_mapped_options rt (OptList xs)))))
          (Some (FeedbackSerde_deserialize rt (snd (get_mapped_options rt (OptList xs)))))
          (Some (FeedbackSerde_serialize rt (snd (get_mapped_options rt (OptList xs)))))
          on_change args kwargs ONLY_SELECTED)"
  by (auto simp: feedback_def split: prod.splits sum.splits)

theorem feedback_list_skips_check_witness:
  "map_sum id fst (feedback (test_button_runtime thumbs_up) [] None (OptList [PStr ''bogus'', PInt 7])
     PNone False None None None) = Inr (Atom (PInt 1))"
  using feedback_list_skips_check [of "test_button_runtime thumbs_up" "[]" None "[PStr ''bogus'', PInt 7]" PNone False None None None]
  by (simp add: test_button_runtime_def test_runtime_def keep_def thumbs_up_def button_group_def
        check_multiselect_policies_def transform_options_def check_and_convert_to_indices_def
        build_proto_def Let_def)

end
